theory Spec2Isabelle
  imports Main "HOL-Library.AList"
begin

section \<open>Python values and exceptions\<close>

text \<open>
  Byte strings and text strings are both \<open>string\<close>: a Python \<open>str\<close> is represented by
  its UTF-8 encoding, so \<open>.encode()\<close> and \<open>.decode()\<close> are the identity.

  The values a claims dictionary holds in this program: strings (the subject and the role),
  integers (numeric dates once serialised) and \<open>datetime\<close> objects (the expiration before
  serialisation). A \<open>datetime\<close> is an aware UTC instant, counted in microseconds since
  the epoch; a \<open>timedelta\<close> is a number of microseconds.
\<close>

type_synonym bytes = string

datatype pyval = PyStr string | PyInt int | PyDatetime int

text \<open>Python truth value, as tested by \<open>if not username\<close>.\<close>

fun truthy :: "pyval \<Rightarrow> bool" where
  "truthy (PyStr s) = (s \<noteq> [])"
| "truthy (PyInt n) = (n \<noteq> 0)"
| "truthy (PyDatetime d) = True"

text \<open>
  A \<open>dict\<close> keeps its keys in insertion order: an association list.
  \<open>d.get(k)\<close> is \<open>map_of d k\<close>, \<open>d.update({k: v})\<close> is \<open>AList.update k v d\<close>
  (an existing key keeps its place, a new key goes last).
\<close>

type_synonym pydict = "(string \<times> pyval) list"

datatype exc =
    HTTPException nat string
  | ValueError string
  | TypeError string
  | OverflowError string

section \<open>models.py\<close>

datatype UserRole = ADMIN | MANAGER | SALESPERSON

fun role_value :: "UserRole \<Rightarrow> string" where
  "role_value ADMIN = ''admin''"
| "role_value MANAGER = ''manager''"
| "role_value SALESPERSON = ''salesperson''"

record User =
  user_id :: string
  username :: string
  email :: string
  hashed_password :: string
  role :: UserRole
  created_at :: int

section \<open>The bcrypt library\<close>



definition is_digit :: "char \<Rightarrow> bool" where
  "is_digit c = (c \<in> set ''0123456789'')"

definition digit_val :: "char \<Rightarrow> nat" where
  "digit_val c = of_char c - 48"






section \<open>The PyJWT library\<close>

text \<open>
  \<open>jwt.encode\<close> and \<open>jwt.decode\<close> are library calls too. A token string is
  represented by what it parses to: \<open>Compact alg payload sig\<close> is the compact
  serialisation whose header names the algorithm \<open>alg\<close>, whose second segment is the
  JSON of \<open>payload\<close> and whose third segment is the signature \<open>sig\<close>; \<open>Malformed s\<close>
  is any other string. Base64 and JSON text are not modelled. The keyed hash (HMAC-SHA256
  for HS256) is the parameter \<open>hmac\<close>, from the key and the signing input (header and
  payload) to the signature.

  The model follows PyJWT 2.10 with its default options. \<open>encode\<close> turns a
  \<open>datetime\<close> under \<open>exp\<close>, \<open>iat\<close> or \<open>nbf\<close> into whole seconds since the epoch
  (the microseconds are dropped), refuses an issuer that is not a string and a value that
  JSON cannot hold. \<open>decode\<close> checks, in this order, the structure, the algorithm, the
  signature, and then the claims \<open>iat\<close>, \<open>nbf\<close>, \<open>exp\<close>, \<open>aud\<close>, \<open>sub\<close> and
  \<open>jti\<close>, with no leeway, against the clock of the call (\<open>now\<close>, in microseconds):
  a token is expired when \<open>exp \<le> now\<close>, not yet valid when \<open>nbf > now\<close> or
  \<open>iat > now\<close>; with no audience expected, a non-empty \<open>aud\<close> is refused.
\<close>

datatype token = Compact string pydict bytes | Malformed string

type_synonym mac = "bytes \<Rightarrow> string \<times> pydict \<Rightarrow> bytes"

datatype jwt_error =
    ExpiredSignatureError
  | DecodeError
  | InvalidAlgorithmError
  | InvalidSignatureError
  | InvalidIssuedAtError
  | ImmatureSignatureError
  | InvalidAudienceError
  | InvalidSubjectError
  | InvalidJTIError

fun encode_claim :: "string \<times> pyval \<Rightarrow> string \<times> pyval" where
  "encode_claim (k, PyDatetime us) =
     (if k \<in> set [''exp'', ''iat'', ''nbf''] then (k, PyInt (us div 1000000))
      else (k, PyDatetime us))"
| "encode_claim (k, PyStr s) = (k, PyStr s)"
| "encode_claim (k, PyInt n) = (k, PyInt n)"

fun is_json :: "pyval \<Rightarrow> bool" where
  "is_json (PyDatetime d) = False"
| "is_json (PyStr s) = True"
| "is_json (PyInt n) = True"

definition json_serializable :: "pydict \<Rightarrow> bool" where
  "json_serializable p = list_all (\<lambda>kv. is_json (snd kv)) p"

fun is_str :: "pyval \<Rightarrow> bool" where
  "is_str (PyStr s) = True"
| "is_str (PyInt n) = False"
| "is_str (PyDatetime d) = False"

definition jwt_encode :: "mac \<Rightarrow> pydict \<Rightarrow> bytes \<Rightarrow> string \<Rightarrow> exc + token" where
  "jwt_encode hmac payload key alg =
     (let p = map encode_claim payload in
      if (case map_of p ''iss'' of None \<Rightarrow> False | Some v \<Rightarrow> \<not> is_str v)
      then Inl (TypeError ''Issuer (iss) must be a string.'')
      else if \<not> json_serializable p
      then Inl (TypeError ''Object of type datetime is not JSON serializable'')
      else Inr (Compact alg p (hmac key (alg, p))))"

text \<open>
  \<open>int(v)\<close> on a claim value: an integer is itself, a string of decimal digits with an
  optional sign is the number it spells (the blanks and underscores that \<open>int\<close> also
  accepts are left out), any other string raises \<open>ValueError\<close> (\<open>None\<close> here).
\<close>

definition digits_val :: "string \<Rightarrow> int" where
  "digits_val s = foldl (\<lambda>a c. 10 * a + int (digit_val c)) 0 s"

fun int_of_str :: "string \<Rightarrow> int option" where
  "int_of_str [] = None"
| "int_of_str (c # cs) =
     (if c = CHR ''-'' \<and> cs \<noteq> [] \<and> list_all is_digit cs then Some (- digits_val cs)
      else if c = CHR ''+'' \<and> cs \<noteq> [] \<and> list_all is_digit cs then Some (digits_val cs)
      else if list_all is_digit (c # cs) then Some (digits_val (c # cs))
      else None)"

fun py_int :: "pyval \<Rightarrow> int option" where
  "py_int (PyInt n) = Some n"
| "py_int (PyStr s) = int_of_str s"
| "py_int (PyDatetime d) = None"

definition validate_iat :: "pydict \<Rightarrow> int \<Rightarrow> jwt_error option" where
  "validate_iat payload now =
     (case map_of payload ''iat'' of
        None \<Rightarrow> None
      | Some v \<Rightarrow>
          (case py_int v of
             None \<Rightarrow> Some InvalidIssuedAtError
           | Some iat \<Rightarrow> if iat * 1000000 > now then Some ImmatureSignatureError else None))"

definition validate_nbf :: "pydict \<Rightarrow> int \<Rightarrow> jwt_error option" where
  "validate_nbf payload now =
     (case map_of payload ''nbf'' of
        None \<Rightarrow> None
      | Some v \<Rightarrow>
          (case py_int v of
             None \<Rightarrow> Some DecodeError
           | Some nbf \<Rightarrow> if nbf * 1000000 > now then Some ImmatureSignatureError else None))"

definition validate_exp :: "pydict \<Rightarrow> int \<Rightarrow> jwt_error option" where
  "validate_exp payload now =
     (case map_of payload ''exp'' of
        None \<Rightarrow> None
      | Some v \<Rightarrow>
          (case py_int v of
             None \<Rightarrow> Some DecodeError
           | Some e \<Rightarrow> if e * 1000000 \<le> now then Some ExpiredSignatureError else None))"

definition validate_aud :: "pydict \<Rightarrow> jwt_error option" where
  "validate_aud payload =
     (case map_of payload ''aud'' of
        None \<Rightarrow> None
      | Some v \<Rightarrow> if truthy v then Some InvalidAudienceError else None)"

definition validate_sub :: "pydict \<Rightarrow> jwt_error option" where
  "validate_sub payload =
     (case map_of payload ''sub'' of
        None \<Rightarrow> None
      | Some v \<Rightarrow> if is_str v then None else Some InvalidSubjectError)"

definition validate_jti :: "pydict \<Rightarrow> jwt_error option" where
  "validate_jti payload =
     (case map_of payload ''jti'' of
        None \<Rightarrow> None
      | Some v \<Rightarrow> if is_str v then None else Some InvalidJTIError)"

fun first_error :: "jwt_error option list \<Rightarrow> jwt_error option" where
  "first_error [] = None"
| "first_error (None # rs) = first_error rs"
| "first_error (Some e # rs) = Some e"

definition validate_claims :: "pydict \<Rightarrow> int \<Rightarrow> jwt_error option" where
  "validate_claims payload now =
     first_error [validate_iat payload now, validate_nbf payload now,
                  validate_exp payload now, validate_aud payload,
                  validate_sub payload, validate_jti payload]"

definition jwt_decode :: "mac \<Rightarrow> token \<Rightarrow> bytes \<Rightarrow> string list \<Rightarrow> int \<Rightarrow> jwt_error + pydict" where
  "jwt_decode hmac tok key algorithms now =
     (case tok of
        Malformed s \<Rightarrow> Inl DecodeError
      | Compact alg payload sig \<Rightarrow>
          if \<not> json_serializable payload then Inl DecodeError
          else if alg \<notin> set algorithms then Inl InvalidAlgorithmError
          else if hmac key (alg, payload) \<noteq> sig then Inl InvalidSignatureError
          else (case validate_claims payload now of
                  Some e \<Rightarrow> Inl e
                | None \<Rightarrow> Inr payload))"

section \<open>auth.py\<close>

text \<open>
  The module constant \<open>SECRET_KEY\<close> is read from the environment once, when the module
  is loaded; it is an argument of every function that uses it. The clock
  (\<open>datetime.now(timezone.utc)\<close>) is the argument \<open>now\<close>.
\<close>

definition ALGORITHM :: string where
  "ALGORITHM = ''HS256''"

definition ACCESS_TOKEN_EXPIRE_MINUTES :: int where
  "ACCESS_TOKEN_EXPIRE_MINUTES = 60 * 24"

definition timedelta_minutes :: "int \<Rightarrow> int" where
  "timedelta_minutes m = m * 60 * 1000000"

text \<open>
  \<open>datetime + timedelta\<close> raises \<open>OverflowError\<close> outside the years 1 to 9999.
\<close>

definition datetime_min :: int where
  "datetime_min = - 62135596800 * 1000000"

definition datetime_max :: int where
  "datetime_max = 253402300799 * 1000000 + 999999"

definition datetime_add :: "int \<Rightarrow> int \<Rightarrow> exc + int" where
  "datetime_add d delta =
     (if datetime_min \<le> d + delta \<and> d + delta \<le> datetime_max then Inr (d + delta)
      else Inl (OverflowError ''date value out of range''))"

text \<open>\<open>expires_delta or default\<close>: \<open>None\<close> and \<open>timedelta(0)\<close> are both falsy.\<close>

definition timedelta_or :: "int option \<Rightarrow> int \<Rightarrow> int" where
  "timedelta_or expires_delta dflt =
     (case expires_delta of
        None \<Rightarrow> dflt
      | Some d \<Rightarrow> if d = 0 then dflt else d)"



text \<open>
  Dictionaries are objects: the caller and \<open>create_access_token\<close> hold references to
  them. The heap is the list of the dictionaries allocated so far, a reference is an
  index into it, \<open>copy\<close> allocates, \<open>update\<close> writes in place.
\<close>

type_synonym heap = "pydict list"
type_synonym ref = nat

definition dict_copy :: "heap \<Rightarrow> ref \<Rightarrow> ref \<times> heap" where
  "dict_copy h r = (length h, h @ [h ! r])"

definition dict_update :: "heap \<Rightarrow> ref \<Rightarrow> string \<Rightarrow> pyval \<Rightarrow> heap" where
  "dict_update h r k v = h[r := AList.update k v (h ! r)]"

definition create_access_token ::
  "mac \<Rightarrow> bytes \<Rightarrow> int \<Rightarrow> heap \<Rightarrow> ref \<Rightarrow> int option \<Rightarrow> (exc + token) \<times> heap" where
  "create_access_token hmac SECRET_KEY now h data expires_delta =
     (case dict_copy h data of
        (to_encode, h1) \<Rightarrow>
          (case datetime_add now
                  (timedelta_or expires_delta (timedelta_minutes ACCESS_TOKEN_EXPIRE_MINUTES)) of
             Inl e \<Rightarrow> (Inl e, h1)
           | Inr expire \<Rightarrow>
               (let h2 = dict_update h1 to_encode ''exp'' (PyDatetime expire)
                in (jwt_encode hmac (h2 ! to_encode) SECRET_KEY ALGORITHM, h2))))"

definition decode_access_token :: "mac \<Rightarrow> bytes \<Rightarrow> int \<Rightarrow> token \<Rightarrow> exc + pydict" where
  "decode_access_token hmac SECRET_KEY now tok =
     (case jwt_decode hmac tok SECRET_KEY [ALGORITHM] now of
        Inr payload \<Rightarrow> Inr payload
      | Inl ExpiredSignatureError \<Rightarrow> Inl (HTTPException 401 ''Token has expired'')
      | Inl e \<Rightarrow> Inl (HTTPException 401 ''Invalid token''))"

text \<open>
  The store: the \<open>users\<close> collection, in its natural order. Every document was written
  by \<open>register\<close> from a \<open>User\<close> (\<open>user.model_dump()\<close>), so \<open>User(**user_data)\<close>
  gives that record back. \<open>find_one({"username": v})\<close> returns the first document whose
  username equals \<open>v\<close>; usernames are strings, so no document matches another kind of
  value.
\<close>

definition find_one_username :: "User list \<Rightarrow> pyval \<Rightarrow> User option" where
  "find_one_username users v =
     (case v of
        PyStr s \<Rightarrow> find (\<lambda>u. username u = s) users
      | PyInt n \<Rightarrow> None
      | PyDatetime d \<Rightarrow> None)"

definition get_current_user :: "mac \<Rightarrow> bytes \<Rightarrow> int \<Rightarrow> User list \<Rightarrow> token \<Rightarrow> exc + User" where
  "get_current_user hmac SECRET_KEY now db tok =
     (case decode_access_token hmac SECRET_KEY now tok of
        Inl e \<Rightarrow> Inl e
      | Inr payload \<Rightarrow>
          (case map_of payload ''sub'' of
             None \<Rightarrow> Inl (HTTPException 401 ''Invalid token payload'')
           | Some uname \<Rightarrow>
               if \<not> truthy uname then Inl (HTTPException 401 ''Invalid token payload'')
               else (case find_one_username db uname of
                       None \<Rightarrow> Inl (HTTPException 401 ''User not found'')
                     | Some user_data \<Rightarrow> Inr user_data)))"

text \<open>
  The f-string of the 403 response prints a list of strings as Python does:
  \<open>['admin', 'manager']\<close>.
\<close>

definition repr_str :: "string \<Rightarrow> string" where
  "repr_str s = [CHR 0x27] @ s @ [CHR 0x27]"

fun join :: "string \<Rightarrow> string list \<Rightarrow> string" where
  "join sep [] = []"
| "join sep [x] = x"
| "join sep (x # y # ys) = x @ sep @ join sep (y # ys)"

definition repr_str_list :: "string list \<Rightarrow> string" where
  "repr_str_list xs = ''['' @ join '', '' (map repr_str xs) @ '']''"

definition access_denied :: "UserRole list \<Rightarrow> exc" where
  "access_denied allowed_roles =
     HTTPException 403
       (''Access denied. Required roles: '' @ repr_str_list (map role_value allowed_roles))"

text \<open>
  \<open>require_role(*allowed_roles)\<close> returns the closure \<open>role_checker\<close>; applying
  \<open>require_role\<close> to the roles and then to the request is that closure's call. The
  request carries the store and the bearer token.
\<close>

definition require_role ::
  "UserRole list \<Rightarrow> mac \<Rightarrow> bytes \<Rightarrow> int \<Rightarrow> User list \<Rightarrow> token \<Rightarrow> exc + User" where
  "require_role allowed_roles hmac SECRET_KEY now db tok =
     (case get_current_user hmac SECRET_KEY now db tok of
        Inl e \<Rightarrow> Inl e
      | Inr user \<Rightarrow>
          if role user \<notin> set allowed_roles then Inl (access_denied allowed_roles)
          else Inr user)"

section \<open>server.py\<close>

text \<open>
  \<open>register\<close> and \<open>login\<close> issue the token for a user from this dictionary:
  \<open>data={"sub": user.username, "role": user.role.value}\<close>.
\<close>

definition token_claims :: "User \<Rightarrow> pydict" where
  "token_claims user =
     [(''sub'', PyStr (username user)), (''role'', PyStr (role_value (role user)))]"

section \<open>Sample data\<close>


definition sample_hmac :: mac where
  "sample_hmac key m = key @ ''|'' @ fst m @ concat (map fst (snd m))"

definition sample_key :: bytes where
  "sample_key = ''your-secret-key-change-in-production''"

definition sample_now :: int where
  "sample_now = 1700000000500000"

text \<open>The token the program issues at \<open>sample_now\<close> for a claims dictionary, with the default lifetime.\<close>

definition sample_token :: "pydict \<Rightarrow> token" where
  "sample_token c =
     (case fst (create_access_token sample_hmac sample_key sample_now [c] 0 None) of
        Inr tok \<Rightarrow> tok
      | Inl e \<Rightarrow> Malformed [])"

definition admin_test :: User where
  "admin_test = \<lparr>user_id = ''u1'', username = ''admin_test'', email = ''admin@test.com'',
     hashed_password = ''$2b$12$abcdefghijklmnopqrstuvadmin123'', role = ADMIN,
     created_at = 1700000000000000\<rparr>"

definition manager_test :: User where
  "manager_test = \<lparr>user_id = ''u2'', username = ''manager_test'', email = ''manager@test.com'',
     hashed_password = ''$2b$12$abcdefghijklmnopqrstuvmanager123'', role = MANAGER,
     created_at = 1700000000000000\<rparr>"

section \<open>Credential hashing\<close>










section \<open>Token issuance\<close>

text \<open>
  What \<open>create_access_token\<close> does to the heap and what it hands to \<open>jwt.encode\<close>:
  the copy is a new dictionary, the update goes to the copy.
\<close>

lemma create_access_token_unfold:
  "create_access_token hmac key now h data ttl =
     (case datetime_add now (timedelta_or ttl (timedelta_minutes ACCESS_TOKEN_EXPIRE_MINUTES)) of
        Inl e \<Rightarrow> (Inl e, h @ [h ! data])
      | Inr expire \<Rightarrow>
          (jwt_encode hmac (AList.update ''exp'' (PyDatetime expire) (h ! data)) key ALGORITHM,
           h @ [AList.update ''exp'' (PyDatetime expire) (h ! data)]))"
  by (simp add: create_access_token_def dict_copy_def dict_update_def Let_def split: sum.splits)

section \<open>The sample tokens\<close>

lemma sample_token_manager:
  "sample_token (token_claims manager_test) =
     Compact ''HS256''
       [(''sub'', PyStr ''manager_test''), (''role'', PyStr ''manager''), (''exp'', PyInt 1700086400)]
       ''your-secret-key-change-in-production|HS256subroleexp''"
  by (simp add: sample_token_def create_access_token_unfold datetime_add_def timedelta_or_def
      timedelta_minutes_def ACCESS_TOKEN_EXPIRE_MINUTES_def datetime_min_def datetime_max_def
      sample_now_def token_claims_def manager_test_def jwt_encode_def json_serializable_def
      ALGORITHM_def sample_hmac_def sample_key_def Let_def)

lemmas sample_simps =
  sample_token_def create_access_token_unfold datetime_add_def timedelta_or_def
  timedelta_minutes_def ACCESS_TOKEN_EXPIRE_MINUTES_def datetime_min_def datetime_max_def
  sample_now_def token_claims_def manager_test_def admin_test_def jwt_encode_def
  json_serializable_def ALGORITHM_def sample_hmac_def sample_key_def Let_def

lemmas decode_simps =
  decode_access_token_def jwt_decode_def validate_claims_def validate_iat_def
  validate_nbf_def validate_exp_def validate_aud_def validate_sub_def validate_jti_def
  json_serializable_def ALGORITHM_def sample_hmac_def sample_key_def sample_now_def

lemma sample_token_nosub:
  "sample_token [(''role'', PyStr ''manager'')] =
     Compact ''HS256'' [(''role'', PyStr ''manager''), (''exp'', PyInt 1700086400)]
       ''your-secret-key-change-in-production|HS256roleexp''"
  by (simp add: sample_simps)

lemma sample_token_emptysub:
  "sample_token [(''sub'', PyStr [])] =
     Compact ''HS256'' [(''sub'', PyStr []), (''exp'', PyInt 1700086400)]
       ''your-secret-key-change-in-production|HS256subexp''"
  by (simp add: sample_simps)

lemma sample_token_nobody:
  "sample_token [(''sub'', PyStr ''nobody'')] =
     Compact ''HS256'' [(''sub'', PyStr ''nobody''), (''exp'', PyInt 1700086400)]
       ''your-secret-key-change-in-production|HS256subexp''"
  by (simp add: sample_simps)

lemma sample_token_admin:
  "sample_token (token_claims admin_test) =
     Compact ''HS256''
       [(''sub'', PyStr ''admin_test''), (''role'', PyStr ''admin''), (''exp'', PyInt 1700086400)]
       ''your-secret-key-change-in-production|HS256subroleexp''"
  by (simp add: sample_simps)

lemma decode_manager:
  "decode_access_token sample_hmac sample_key sample_now (sample_token (token_claims manager_test)) =
     Inr [(''sub'', PyStr ''manager_test''), (''role'', PyStr ''manager''), (''exp'', PyInt 1700086400)]"
  by (simp add: sample_token_manager decode_simps)

lemma decode_admin:
  "decode_access_token sample_hmac sample_key sample_now (sample_token (token_claims admin_test)) =
     Inr [(''sub'', PyStr ''admin_test''), (''role'', PyStr ''admin''), (''exp'', PyInt 1700086400)]"
  by (simp add: sample_token_admin decode_simps)

lemma decode_nosub:
  "decode_access_token sample_hmac sample_key sample_now (sample_token [(''role'', PyStr ''manager'')]) =
     Inr [(''role'', PyStr ''manager''), (''exp'', PyInt 1700086400)]"
  by (simp add: sample_token_nosub decode_simps)

lemma decode_emptysub:
  "decode_access_token sample_hmac sample_key sample_now (sample_token [(''sub'', PyStr [])]) =
     Inr [(''sub'', PyStr []), (''exp'', PyInt 1700086400)]"
  by (simp add: sample_token_emptysub decode_simps)

lemma decode_nobody:
  "decode_access_token sample_hmac sample_key sample_now (sample_token [(''sub'', PyStr ''nobody'')]) =
     Inr [(''sub'', PyStr ''nobody''), (''exp'', PyInt 1700086400)]"
  by (simp add: sample_token_nobody decode_simps)

lemma decode_malformed:
  "decode_access_token sample_hmac sample_key sample_now (Malformed ''not.a.token'') =
     Inl (HTTPException 401 ''Invalid token'')"
  by (simp add: decode_access_token_def jwt_decode_def)

lemma current_user_manager:
  "get_current_user sample_hmac sample_key sample_now [admin_test, manager_test]
     (sample_token (token_claims manager_test)) = Inr manager_test"
  unfolding get_current_user_def decode_manager
  by (simp add: find_one_username_def admin_test_def manager_test_def)

lemma current_user_admin:
  "get_current_user sample_hmac sample_key sample_now [admin_test, manager_test]
     (sample_token (token_claims admin_test)) = Inr admin_test"
  unfolding get_current_user_def decode_admin
  by (simp add: find_one_username_def admin_test_def manager_test_def)

section \<open>Frame of token issuance\<close>

text \<open>
  Claim C10. \<open>create_access_token\<close> leaves every dictionary that existed before the
  call as it was, the caller's claims dictionary among them: the expiration goes into a copy.
\<close>

theorem create_access_token_keeps_caller_dict:
  "take (length h) (snd (create_access_token hmac key now h data ttl)) = h
   \<and> (data < length h \<longrightarrow> snd (create_access_token hmac key now h data ttl) ! data = h ! data)"
  by (simp add: create_access_token_unfold nth_append split: sum.splits)

theorem create_access_token_keeps_caller_dict_witness:
  "(0::nat) < length [token_claims manager_test]
   \<and> snd (create_access_token sample_hmac sample_key sample_now [token_claims manager_test] 0 None) ! 0
       = [token_claims manager_test] ! 0
   \<and> snd (create_access_token sample_hmac sample_key sample_now [token_claims manager_test] 0 None)
       = [token_claims manager_test,
          [(''sub'', PyStr ''manager_test''), (''role'', PyStr ''manager''),
           (''exp'', PyDatetime 1700086400500000)]]"
proof -
  have l: "(0::nat) < length [token_claims manager_test]" by simp
  have v: "snd (create_access_token sample_hmac sample_key sample_now [token_claims manager_test] 0 None)
       = [token_claims manager_test,
          [(''sub'', PyStr ''manager_test''), (''role'', PyStr ''manager''),
           (''exp'', PyDatetime 1700086400500000)]]"
    by (simp add: create_access_token_unfold datetime_add_def timedelta_or_def
      timedelta_minutes_def ACCESS_TOKEN_EXPIRE_MINUTES_def datetime_min_def datetime_max_def
      sample_now_def token_claims_def manager_test_def)
  from create_access_token_keeps_caller_dict
         [of "[token_claims manager_test]" sample_hmac sample_key sample_now 0 None] l v
  show ?thesis by blast
qed

section \<open>Identity resolution\<close>

lemma find_SomeD: "find P xs = Some x \<Longrightarrow> x \<in> set xs \<and> P x"
  by (induction xs) (auto split: if_splits)

text \<open>
  Claim C8. \<open>get_current_user\<close> first verifies the token: a verification failure is
  its result, whatever the payload and the store. With a verified payload it fails with
  401 "Invalid token payload" when the subject is absent; with a subject it looks the
  username up in the store and fails with 401 "User not found" when no record matches;
  otherwise it returns the stored record, role included.
\<close>

theorem get_current_user_resolves:
  "(decode_access_token hmac key now tok = Inl e \<longrightarrow>
      get_current_user hmac key now db tok = Inl e)
   \<and> (decode_access_token hmac key now tok = Inr payload \<and> map_of payload ''sub'' = None \<longrightarrow>
      get_current_user hmac key now db tok = Inl (HTTPException 401 ''Invalid token payload''))
   \<and> (decode_access_token hmac key now tok = Inr payload
        \<and> map_of payload ''sub'' = Some (PyStr name) \<and> name \<noteq> []
        \<and> find (\<lambda>u. username u = name) db = None \<longrightarrow>
      get_current_user hmac key now db tok = Inl (HTTPException 401 ''User not found''))
   \<and> (decode_access_token hmac key now tok = Inr payload
        \<and> map_of payload ''sub'' = Some (PyStr name) \<and> name \<noteq> []
        \<and> find (\<lambda>u. username u = name) db = Some u \<longrightarrow>
      get_current_user hmac key now db tok = Inr u \<and> u \<in> set db \<and> username u = name)"
  by (auto simp: get_current_user_def find_one_username_def dest: find_SomeD)

theorem get_current_user_resolves_witness:
  "decode_access_token sample_hmac sample_key sample_now (Malformed ''not.a.token'')
     = Inl (HTTPException 401 ''Invalid token'')
   \<and> get_current_user sample_hmac sample_key sample_now [admin_test, manager_test]
       (Malformed ''not.a.token'') = Inl (HTTPException 401 ''Invalid token'')
   \<and> decode_access_token sample_hmac sample_key sample_now (sample_token [(''role'', PyStr ''manager'')])
       = Inr [(''role'', PyStr ''manager''), (''exp'', PyInt 1700086400)]
   \<and> get_current_user sample_hmac sample_key sample_now [admin_test, manager_test]
       (sample_token [(''role'', PyStr ''manager'')]) = Inl (HTTPException 401 ''Invalid token payload'')
   \<and> decode_access_token sample_hmac sample_key sample_now (sample_token [(''sub'', PyStr ''nobody'')])
       = Inr [(''sub'', PyStr ''nobody''), (''exp'', PyInt 1700086400)]
   \<and> find (\<lambda>u. username u = ''nobody'') [admin_test, manager_test] = None
   \<and> get_current_user sample_hmac sample_key sample_now [admin_test, manager_test]
       (sample_token [(''sub'', PyStr ''nobody'')]) = Inl (HTTPException 401 ''User not found'')
   \<and> decode_access_token sample_hmac sample_key sample_now (sample_token (token_claims manager_test))
       = Inr [(''sub'', PyStr ''manager_test''), (''role'', PyStr ''manager''), (''exp'', PyInt 1700086400)]
   \<and> find (\<lambda>u. username u = ''manager_test'') [admin_test, manager_test] = Some manager_test
   \<and> get_current_user sample_hmac sample_key sample_now [admin_test, manager_test]
       (sample_token (token_claims manager_test)) = Inr manager_test"
proof -
  let ?db = "[admin_test, manager_test]"
  have f0: "find (\<lambda>u. username u = ''nobody'') ?db = None"
    by (simp add: admin_test_def manager_test_def)
  have f1: "find (\<lambda>u. username u = ''manager_test'') ?db = Some manager_test"
    by (simp add: admin_test_def manager_test_def)
  have s1: "map_of [(''role'', PyStr ''manager''), (''exp'', PyInt 1700086400)] ''sub'' = None"
    by simp
  have s2: "map_of [(''sub'', PyStr ''nobody''), (''exp'', PyInt 1700086400)] ''sub''
      = Some (PyStr ''nobody'')"
    by simp
  have s3: "map_of [(''sub'', PyStr ''manager_test''), (''role'', PyStr ''manager''),
      (''exp'', PyInt 1700086400)] ''sub'' = Some (PyStr ''manager_test'')"
    by simp
  have n2: "''nobody'' \<noteq> []" and n3: "''manager_test'' \<noteq> []"
    by simp_all
  have r0: "get_current_user sample_hmac sample_key sample_now ?db (Malformed ''not.a.token'')
      = Inl (HTTPException 401 ''Invalid token'')"
    by (rule get_current_user_resolves [THEN conjunct1, THEN mp, OF decode_malformed])
  have r1: "get_current_user sample_hmac sample_key sample_now ?db
      (sample_token [(''role'', PyStr ''manager'')]) = Inl (HTTPException 401 ''Invalid token payload'')"
    by (rule get_current_user_resolves [THEN conjunct2, THEN conjunct1, THEN mp,
          OF conjI [OF decode_nosub s1]])
  have r2: "get_current_user sample_hmac sample_key sample_now ?db
      (sample_token [(''sub'', PyStr ''nobody'')]) = Inl (HTTPException 401 ''User not found'')"
    by (rule get_current_user_resolves [THEN conjunct2, THEN conjunct2, THEN conjunct1, THEN mp,
          OF conjI [OF decode_nobody conjI [OF s2 conjI [OF n2 f0]]]])
  have r3: "get_current_user sample_hmac sample_key sample_now ?db
      (sample_token (token_claims manager_test)) = Inr manager_test"
    by (rule get_current_user_resolves [THEN conjunct2, THEN conjunct2, THEN conjunct2, THEN mp,
          OF conjI [OF decode_manager conjI [OF s3 conjI [OF n3 f1]]], THEN conjunct1])
  show ?thesis
    using decode_malformed r0 decode_nosub r1 decode_nobody f0 r2 decode_manager f1 r3
    by - (intro conjI; assumption)
qed

text \<open>
  Claim C9. A verified payload whose subject is falsy (the empty string) is rejected with
  401 "Invalid token payload", the failure of a payload with no subject at all, and the
  result does not depend on the store: the store is not consulted.
\<close>

theorem get_current_user_falsy_subject:
  assumes "decode_access_token hmac key now tok = Inr payload"
    and "map_of payload ''sub'' = Some v" and "\<not> truthy v"
    and "decode_access_token hmac key now tok' = Inr payload'"
    and "map_of payload' ''sub'' = None"
  shows "get_current_user hmac key now db tok = Inl (HTTPException 401 ''Invalid token payload'')
         \<and> get_current_user hmac key now db tok = get_current_user hmac key now db' tok'"
  using assms by (simp add: get_current_user_def)

theorem get_current_user_falsy_subject_witness:
  "decode_access_token sample_hmac sample_key sample_now (sample_token [(''sub'', PyStr [])])
     = Inr [(''sub'', PyStr []), (''exp'', PyInt 1700086400)]
   \<and> \<not> truthy (PyStr [])
   \<and> decode_access_token sample_hmac sample_key sample_now (sample_token [(''role'', PyStr ''manager'')])
       = Inr [(''role'', PyStr ''manager''), (''exp'', PyInt 1700086400)]
   \<and> get_current_user sample_hmac sample_key sample_now [admin_test\<lparr>username := []\<rparr>]
       (sample_token [(''sub'', PyStr [])]) = Inl (HTTPException 401 ''Invalid token payload'')
   \<and> get_current_user sample_hmac sample_key sample_now [admin_test\<lparr>username := []\<rparr>]
       (sample_token [(''sub'', PyStr [])])
     = get_current_user sample_hmac sample_key sample_now []
       (sample_token [(''role'', PyStr ''manager'')])"
proof -
  have t: "\<not> truthy (PyStr [])" by simp
  have s0: "map_of [(''sub'', PyStr []), (''exp'', PyInt 1700086400)] ''sub'' = Some (PyStr [])"
    by simp
  have s1: "map_of [(''role'', PyStr ''manager''), (''exp'', PyInt 1700086400)] ''sub'' = None"
    by simp
  from get_current_user_falsy_subject [OF decode_emptysub s0 t decode_nosub s1,
      of "[admin_test\<lparr>username := []\<rparr>]" "[]"] decode_emptysub decode_nosub t
  show ?thesis by blast
qed

section \<open>Access guard\<close>

text \<open>
  Claim C1. For an authenticated user, the guard made by \<open>require_role\<close> returns the
  user's record when the user's role is among the allowed roles and fails with 403
  otherwise, the detail listing the allowed roles. In particular \<open>require_role(ADMIN)\<close>
  rejects a manager and accepts an administrator.
\<close>

theorem require_role_guard:
  "(\<forall>u. get_current_user hmac key now db tok = Inr u \<longrightarrow>
       require_role allowed_roles hmac key now db tok =
         (if role u \<in> set allowed_roles then Inr u
          else Inl (HTTPException 403
                 (''Access denied. Required roles: '' @ repr_str_list (map role_value allowed_roles)))))
   \<and> (\<forall>u. get_current_user hmac key now db tok = Inr u \<and> role u = MANAGER \<longrightarrow>
       require_role [ADMIN] hmac key now db tok =
         Inl (HTTPException 403 (''Access denied. Required roles: ['' @ [CHR 0x27] @ ''admin'' @ [CHR 0x27] @ '']'')))
   \<and> (\<forall>u. get_current_user hmac key now db tok = Inr u \<and> role u = ADMIN \<longrightarrow>
       require_role [ADMIN] hmac key now db tok = Inr u)"
  by (simp add: require_role_def access_denied_def repr_str_list_def repr_str_def)

theorem require_role_guard_witness:
  "get_current_user sample_hmac sample_key sample_now [admin_test, manager_test]
     (sample_token (token_claims manager_test)) = Inr manager_test
   \<and> role manager_test = MANAGER
   \<and> require_role [ADMIN] sample_hmac sample_key sample_now [admin_test, manager_test]
       (sample_token (token_claims manager_test))
     = Inl (HTTPException 403 (''Access denied. Required roles: ['' @ [CHR 0x27] @ ''admin'' @ [CHR 0x27] @ '']''))
   \<and> require_role [ADMIN, MANAGER] sample_hmac sample_key sample_now [admin_test, manager_test]
       (sample_token (token_claims manager_test)) = Inr manager_test
   \<and> get_current_user sample_hmac sample_key sample_now [admin_test, manager_test]
       (sample_token (token_claims admin_test)) = Inr admin_test
   \<and> role admin_test = ADMIN
   \<and> require_role [ADMIN] sample_hmac sample_key sample_now [admin_test, manager_test]
       (sample_token (token_claims admin_test)) = Inr admin_test"
proof -
  let ?db = "[admin_test, manager_test]"
  have m: "role manager_test = MANAGER" by (simp add: manager_test_def)
  have a: "role admin_test = ADMIN" by (simp add: admin_test_def)
  note g1 = require_role_guard [of sample_hmac sample_key sample_now ?db
      "sample_token (token_claims manager_test)" "[ADMIN, MANAGER]"]
  note g2 = require_role_guard [of sample_hmac sample_key sample_now ?db
      "sample_token (token_claims admin_test)" "[ADMIN]"]
  have r1: "require_role [ADMIN] sample_hmac sample_key sample_now ?db
       (sample_token (token_claims manager_test))
     = Inl (HTTPException 403 (''Access denied. Required roles: ['' @ [CHR 0x27] @ ''admin'' @ [CHR 0x27] @ '']''))"
    using g1 current_user_manager m by blast
  have r2: "require_role [ADMIN, MANAGER] sample_hmac sample_key sample_now ?db
       (sample_token (token_claims manager_test)) = Inr manager_test"
    using g1 current_user_manager m by simp
  have r3: "require_role [ADMIN] sample_hmac sample_key sample_now ?db
       (sample_token (token_claims admin_test)) = Inr admin_test"
    using g2 current_user_admin a by blast
  from current_user_manager m r1 r2 current_user_admin a r3 show ?thesis by blast
qed

section \<open>Serialised claims\<close>

lemma fst_encode_claim: "fst (encode_claim kv) = fst kv"
  by (cases kv rule: encode_claim.cases) auto

lemma map_of_encode_claim:
  "map_of (map encode_claim d) k = map_option (\<lambda>v. snd (encode_claim (k, v))) (map_of d k)"
proof (induction d)
  case Nil
  then show ?case by simp
next
  case (Cons kv d)
  then show ?case by (cases kv rule: encode_claim.cases) auto
qed





lemma issued_token:
  assumes "fst (create_access_token hmac key now h data ttl) = Inr tok"
  shows "\<exists>expire p.
           datetime_add now (timedelta_or ttl (timedelta_minutes ACCESS_TOKEN_EXPIRE_MINUTES))
             = Inr expire
           \<and> p = map encode_claim (AList.update ''exp'' (PyDatetime expire) (h ! data))
           \<and> json_serializable p
           \<and> tok = Compact ALGORITHM p (hmac key (ALGORITHM, p))"
  using assms
  by (auto simp: create_access_token_unfold jwt_encode_def Let_def split: sum.splits if_splits)


lemma decode_returns_payload:
  "decode_access_token hmac key now (Compact alg p sig) = Inr payload \<Longrightarrow> payload = p"
  by (auto simp: decode_access_token_def jwt_decode_def
      split: if_splits option.splits sum.splits jwt_error.splits)


section \<open>Concrete issuances\<close>

lemmas issue_simps =
  create_access_token_unfold datetime_add_def timedelta_or_def
  timedelta_minutes_def ACCESS_TOKEN_EXPIRE_MINUTES_def datetime_min_def datetime_max_def
  sample_now_def jwt_encode_def json_serializable_def ALGORITHM_def sample_hmac_def
  sample_key_def Let_def

lemma issue_hour:
  "fst (create_access_token sample_hmac sample_key sample_now [token_claims manager_test] 0
          (Some 3600000000)) =
     Inr (Compact ''HS256''
       [(''sub'', PyStr ''manager_test''), (''role'', PyStr ''manager''), (''exp'', PyInt 1700003600)]
       ''your-secret-key-change-in-production|HS256subroleexp'')"
  by (simp add: issue_simps token_claims_def manager_test_def)


lemma decode_hour:
  "decode_access_token sample_hmac sample_key sample_now
     (Compact ''HS256''
       [(''sub'', PyStr ''manager_test''), (''role'', PyStr ''manager''), (''exp'', PyInt 1700003600)]
       ''your-secret-key-change-in-production|HS256subroleexp'') =
   Inr [(''sub'', PyStr ''manager_test''), (''role'', PyStr ''manager''), (''exp'', PyInt 1700003600)]"
  by (simp add: decode_simps)

section \<open>Round trip of issue and verify\<close>


text \<open>
  Two more ways the round trip fails, both from the library: the expiration is cut to
  whole seconds, so a lifetime under a second can be over at the instant of issuance; and
  a registered claim that \<open>decode\<close> validates (here an audience, with no audience
  expected) makes verification fail.
\<close>

lemma subsecond_ttl_expired_at_issue:
  "fst (create_access_token sample_hmac sample_key sample_now [token_claims manager_test] 0
          (Some 100000)) =
     Inr (Compact ''HS256''
       [(''sub'', PyStr ''manager_test''), (''role'', PyStr ''manager''), (''exp'', PyInt 1700000000)]
       ''your-secret-key-change-in-production|HS256subroleexp'')
   \<and> decode_access_token sample_hmac sample_key sample_now
        (Compact ''HS256''
          [(''sub'', PyStr ''manager_test''), (''role'', PyStr ''manager''), (''exp'', PyInt 1700000000)]
          ''your-secret-key-change-in-production|HS256subroleexp'') =
       Inl (HTTPException 401 ''Token has expired'')"
proof -
  have a: "fst (create_access_token sample_hmac sample_key sample_now [token_claims manager_test] 0
          (Some 100000)) =
     Inr (Compact ''HS256''
       [(''sub'', PyStr ''manager_test''), (''role'', PyStr ''manager''), (''exp'', PyInt 1700000000)]
       ''your-secret-key-change-in-production|HS256subroleexp'')"
    by (simp add: issue_simps token_claims_def manager_test_def)
  have b: "decode_access_token sample_hmac sample_key sample_now
        (Compact ''HS256''
          [(''sub'', PyStr ''manager_test''), (''role'', PyStr ''manager''), (''exp'', PyInt 1700000000)]
          ''your-secret-key-change-in-production|HS256subroleexp'') =
       Inl (HTTPException 401 ''Token has expired'')"
    by (simp add: decode_simps)
  from a b show ?thesis by (intro conjI)
qed

lemma audience_claim_fails_roundtrip:
  "fst (create_access_token sample_hmac sample_key sample_now
          [[(''sub'', PyStr ''manager_test''), (''aud'', PyStr ''shop'')]] 0 None) =
     Inr (Compact ''HS256''
       [(''sub'', PyStr ''manager_test''), (''aud'', PyStr ''shop''), (''exp'', PyInt 1700086400)]
       ''your-secret-key-change-in-production|HS256subaudexp'')
   \<and> decode_access_token sample_hmac sample_key sample_now
        (Compact ''HS256''
          [(''sub'', PyStr ''manager_test''), (''aud'', PyStr ''shop''), (''exp'', PyInt 1700086400)]
          ''your-secret-key-change-in-production|HS256subaudexp'') =
       Inl (HTTPException 401 ''Invalid token'')"
proof -
  have a: "fst (create_access_token sample_hmac sample_key sample_now
          [[(''sub'', PyStr ''manager_test''), (''aud'', PyStr ''shop'')]] 0 None) =
     Inr (Compact ''HS256''
       [(''sub'', PyStr ''manager_test''), (''aud'', PyStr ''shop''), (''exp'', PyInt 1700086400)]
       ''your-secret-key-change-in-production|HS256subaudexp'')"
    by (simp add: issue_simps)
  have b: "decode_access_token sample_hmac sample_key sample_now
        (Compact ''HS256''
          [(''sub'', PyStr ''manager_test''), (''aud'', PyStr ''shop''), (''exp'', PyInt 1700086400)]
          ''your-secret-key-change-in-production|HS256subaudexp'') =
       Inl (HTTPException 401 ''Invalid token'')"
    by (simp add: decode_simps)
  from a b show ?thesis by (intro conjI)
qed



section \<open>Expiry\<close>


text \<open>
  A token that carries a \<open>nbf\<close> (or \<open>iat\<close>) claim in the future fails on that claim,
  which \<open>decode\<close> checks before the expiration: the failure is "Invalid token", not
  "Token has expired".
\<close>

lemma future_nbf_not_reported_expired:
  "fst (create_access_token sample_hmac sample_key sample_now
          [[(''sub'', PyStr ''manager_test''), (''nbf'', PyInt 4102444800)]] 0 (Some 3600000000)) =
     Inr (Compact ''HS256''
       [(''sub'', PyStr ''manager_test''), (''nbf'', PyInt 4102444800), (''exp'', PyInt 1700003600)]
       ''your-secret-key-change-in-production|HS256subnbfexp'')
   \<and> decode_access_token sample_hmac sample_key (sample_now + 3600000000 + 1)
        (Compact ''HS256''
          [(''sub'', PyStr ''manager_test''), (''nbf'', PyInt 4102444800), (''exp'', PyInt 1700003600)]
          ''your-secret-key-change-in-production|HS256subnbfexp'') =
       Inl (HTTPException 401 ''Invalid token'')"
proof -
  have a: "fst (create_access_token sample_hmac sample_key sample_now
          [[(''sub'', PyStr ''manager_test''), (''nbf'', PyInt 4102444800)]] 0 (Some 3600000000)) =
     Inr (Compact ''HS256''
       [(''sub'', PyStr ''manager_test''), (''nbf'', PyInt 4102444800), (''exp'', PyInt 1700003600)]
       ''your-secret-key-change-in-production|HS256subnbfexp'')"
    by (simp add: issue_simps)
  have b: "decode_access_token sample_hmac sample_key (sample_now + 3600000000 + 1)
        (Compact ''HS256''
          [(''sub'', PyStr ''manager_test''), (''nbf'', PyInt 4102444800), (''exp'', PyInt 1700003600)]
          ''your-secret-key-change-in-production|HS256subnbfexp'') =
       Inl (HTTPException 401 ''Invalid token'')"
    by (simp add: decode_simps)
  from a b show ?thesis by (intro conjI)
qed



section \<open>Verification under another key\<close>



section \<open>Role changes after issuance\<close>

text \<open>
  Claim C3 as stated fails: the guard never reads the role claim of the token. A token
  issued for a manager, presented after the store has made that user an administrator,
  passes \<open>require_role(ADMIN)\<close> and is refused by \<open>require_role(MANAGER)\<close>.
\<close>

theorem guard_stale_role_counterexample:
  "role manager_test = MANAGER
   \<and> fst (create_access_token sample_hmac sample_key sample_now [token_claims manager_test] 0
          (Some 3600000000)) =
     Inr (Compact ''HS256''
       [(''sub'', PyStr ''manager_test''), (''role'', PyStr ''manager''), (''exp'', PyInt 1700003600)]
       ''your-secret-key-change-in-production|HS256subroleexp'')
   \<and> require_role [ADMIN] sample_hmac sample_key (sample_now + 60000000)
        [manager_test\<lparr>role := ADMIN\<rparr>]
        (Compact ''HS256''
          [(''sub'', PyStr ''manager_test''), (''role'', PyStr ''manager''), (''exp'', PyInt 1700003600)]
          ''your-secret-key-change-in-production|HS256subroleexp'')
      = Inr (manager_test\<lparr>role := ADMIN\<rparr>)
   \<and> require_role [MANAGER] sample_hmac sample_key (sample_now + 60000000)
        [manager_test\<lparr>role := ADMIN\<rparr>]
        (Compact ''HS256''
          [(''sub'', PyStr ''manager_test''), (''role'', PyStr ''manager''), (''exp'', PyInt 1700003600)]
          ''your-secret-key-change-in-production|HS256subroleexp'')
      = Inl (access_denied [MANAGER])"
proof -
  let ?tok = "Compact ''HS256''
          [(''sub'', PyStr ''manager_test''), (''role'', PyStr ''manager''), (''exp'', PyInt 1700003600)]
          ''your-secret-key-change-in-production|HS256subroleexp''"
  have m: "role manager_test = MANAGER" by (simp add: manager_test_def)
  have d: "decode_access_token sample_hmac sample_key (sample_now + 60000000) ?tok =
     Inr [(''sub'', PyStr ''manager_test''), (''role'', PyStr ''manager''), (''exp'', PyInt 1700003600)]"
    by (simp add: decode_simps)
  have g: "get_current_user sample_hmac sample_key (sample_now + 60000000)
        [manager_test\<lparr>role := ADMIN\<rparr>] ?tok = Inr (manager_test\<lparr>role := ADMIN\<rparr>)"
    unfolding get_current_user_def d
    by (simp add: find_one_username_def manager_test_def)
  have r1: "require_role [ADMIN] sample_hmac sample_key (sample_now + 60000000)
        [manager_test\<lparr>role := ADMIN\<rparr>] ?tok = Inr (manager_test\<lparr>role := ADMIN\<rparr>)"
    unfolding require_role_def g by simp
  have r2: "require_role [MANAGER] sample_hmac sample_key (sample_now + 60000000)
        [manager_test\<lparr>role := ADMIN\<rparr>] ?tok = Inl (access_denied [MANAGER])"
    unfolding require_role_def g by simp
  show ?thesis
    using m issue_hour r1 r2 by - (intro conjI; assumption)
qed

text \<open>
  Claim C3, amended. For a token issued for a user \<open>u0\<close> that still verifies, the
  decision of the guard is made on the role of the record the store holds for \<open>u0\<close>'s
  username at the time of the request, whatever the role was at issuance.
\<close>

theorem guard_uses_current_role:
  assumes "fst (create_access_token hmac key now h data ttl) = Inr tok"
    and "h ! data = token_claims u0"
    and "decode_access_token hmac key now' tok = Inr payload"
    and "username u0 \<noteq> []"
    and "find (\<lambda>u. username u = username u0) db' = Some u'"
  shows "require_role allowed_roles hmac key now' db' tok =
           (if role u' \<in> set allowed_roles then Inr u' else Inl (access_denied allowed_roles))"
proof -
  from issued_token [OF assms(1)] obtain expire p where
    p: "p = map encode_claim (AList.update ''exp'' (PyDatetime expire) (h ! data))"
    and tok: "tok = Compact ALGORITHM p (hmac key (ALGORITHM, p))"
    by blast
  from assms(3) have "payload = p"
    unfolding tok by (rule decode_returns_payload)
  then have sub: "map_of payload ''sub'' = Some (PyStr (username u0))"
    by (simp add: p assms(2) token_claims_def map_of_encode_claim update_conv')
  have "get_current_user hmac key now' db' tok = Inr u'"
    using assms(3,4,5) sub by (simp add: get_current_user_def find_one_username_def)
  then show ?thesis
    by (simp add: require_role_def)
qed

theorem guard_uses_current_role_witness:
  "fst (create_access_token sample_hmac sample_key sample_now [token_claims manager_test] 0
          (Some 3600000000)) =
     Inr (Compact ''HS256''
       [(''sub'', PyStr ''manager_test''), (''role'', PyStr ''manager''), (''exp'', PyInt 1700003600)]
       ''your-secret-key-change-in-production|HS256subroleexp'')
   \<and> [token_claims manager_test] ! 0 = token_claims manager_test
   \<and> decode_access_token sample_hmac sample_key sample_now
       (Compact ''HS256''
         [(''sub'', PyStr ''manager_test''), (''role'', PyStr ''manager''), (''exp'', PyInt 1700003600)]
         ''your-secret-key-change-in-production|HS256subroleexp'') =
       Inr [(''sub'', PyStr ''manager_test''), (''role'', PyStr ''manager''), (''exp'', PyInt 1700003600)]
   \<and> username manager_test \<noteq> []
   \<and> find (\<lambda>u. username u = username manager_test) [admin_test, manager_test\<lparr>role := SALESPERSON\<rparr>]
       = Some (manager_test\<lparr>role := SALESPERSON\<rparr>)
   \<and> require_role [ADMIN, MANAGER] sample_hmac sample_key sample_now
        [admin_test, manager_test\<lparr>role := SALESPERSON\<rparr>]
        (Compact ''HS256''
          [(''sub'', PyStr ''manager_test''), (''role'', PyStr ''manager''), (''exp'', PyInt 1700003600)]
          ''your-secret-key-change-in-production|HS256subroleexp'')
      = Inl (access_denied [ADMIN, MANAGER])"
proof -
  have c: "[token_claims manager_test] ! 0 = token_claims manager_test" by simp
  have n: "username manager_test \<noteq> []" by (simp add: manager_test_def)
  have f: "find (\<lambda>u. username u = username manager_test)
      [admin_test, manager_test\<lparr>role := SALESPERSON\<rparr>] = Some (manager_test\<lparr>role := SALESPERSON\<rparr>)"
    by (simp add: manager_test_def admin_test_def)
  have "role (manager_test\<lparr>role := SALESPERSON\<rparr>) \<notin> set [ADMIN, MANAGER]" by simp
  with guard_uses_current_role [OF issue_hour c decode_hour n f, of "[ADMIN, MANAGER]"]
  have r: "require_role [ADMIN, MANAGER] sample_hmac sample_key sample_now
        [admin_test, manager_test\<lparr>role := SALESPERSON\<rparr>]
        (Compact ''HS256''
          [(''sub'', PyStr ''manager_test''), (''role'', PyStr ''manager''), (''exp'', PyInt 1700003600)]
          ''your-secret-key-change-in-production|HS256subroleexp'')
      = Inl (access_denied [ADMIN, MANAGER])"
    by (simp only: if_False)
  show ?thesis
    using issue_hour c decode_hour n f r by - (intro conjI; assumption)
qed

end
